theory Spec2Isabelle
  imports Complex_Main
begin

section \<open>Tables of the job store\<close>

text \<open>
  The pipeline of \<^verbatim>\<open>scholarfinder_api.py\<close> keeps its tables as pandas frames and as
  CSV files of the job folder. A text cell of a frame is a \<open>string option\<close>: \<open>None\<close> is the
  missing value (Python's \<open>None\<close>, pandas' NaN), which \<open>dropna\<close> removes and which
  \<open>read_csv\<close> returns for an empty field. Strings are sequences of ASCII characters.
\<close>

type_synonym cell = "string option"

text \<open>
  One row of \<^verbatim>\<open>author_email_df\<close>: the columns \<^verbatim>\<open>author, email, aff, city, country\<close>.
  The type of the city and country columns is a parameter: inside \<^verbatim>\<open>database_search\<close>
  they hold whatever the parsing collaborator returned, in a CSV file they are text cells.
\<close>

record 'c candidate =
  author :: cell
  email :: cell
  aff :: cell
  city :: 'c
  country :: 'c

section \<open>Validation metrics and condition scoring\<close>

text \<open>
  The columns that \<^verbatim>\<open>validate_authors\<close> adds to each row before scoring. The source
  names four groups of columns with a stray closing parenthesis
  (\<^verbatim>\<open>"Publications_2_years)"\<close>, \<^verbatim>\<open>"Publications_last_year)"\<close> and their
  first/last variants); the fields drop it, the column-name list further down keeps it.
\<close>

record metrics =
  Total_Publications :: int
  Total_Publications_first :: int
  Total_Publications_last :: int
  Publications_10_years :: int
  Publications_10_years_first :: int
  Publications_10_years_last :: int
  Publications_5_years :: int
  Publications_5_years_first :: int
  Publications_5_years_last :: int
  Relevant_Publications_5_years :: int
  Relevant_Publications_5_years_first :: int
  Relevant_Publications_5_years_last :: int
  Publications_2_years :: int
  Publications_2_years_first :: int
  Publications_2_years_last :: int
  Publications_last_year :: int
  Publications_last_year_first :: int
  Publications_last_year_last :: int
  Clinical_Trials_no :: int
  Retracted_Pubs_no :: int
  Clinical_study_no :: int
  Case_reports_no :: int
  TF_Publications_last_year :: int
  English_Pubs :: int
  coauthor :: bool
  country_match :: string
  aff_match :: string

record condition_score =
  no_of_pub_condition_10_years :: int
  no_of_pub_condition_5_years :: int
  no_of_pub_condition_2_years :: int
  english_condition :: int
  coauthor_condition :: int
  aff_condition :: int
  country_match_condition :: int
  retracted_condition :: int
  conditions_met :: int
  conditions_satisfied :: string

record enriched_row =
  who :: "cell candidate"
  vm :: metrics

record scored_row = enriched_row +
  score :: condition_score

text \<open>
  \<^verbatim>\<open>English_Pubs / Total_Publications\<close> divides two integer columns: pandas computes a
  float column and raises nothing on a zero divisor, the quotient there is \<open>inf\<close>,
  \<open>-inf\<close> or \<open>nan\<close>. A finite quotient is kept exact: for counts below \<open>2^53\<close> the
  rounded quotient exceeds \<open>0.5\<close> exactly when the exact one does.
\<close>

datatype float64 = Finite real | PosInf | NegInf | NaN

definition truediv :: "int \<Rightarrow> int \<Rightarrow> float64" where
  "truediv a b =
     (if b \<noteq> 0 then Finite (real_of_int a / real_of_int b)
      else if 0 < a then PosInf
      else if a < 0 then NegInf
      else NaN)"

text \<open>The comparison \<^verbatim>\<open>> c\<close> of a float with a finite constant; every comparison with \<open>nan\<close> is false.\<close>

fun float_gt :: "float64 \<Rightarrow> real \<Rightarrow> bool" where
  "float_gt (Finite x) c = (c < x)"
| "float_gt PosInf c = True"
| "float_gt NegInf c = False"
| "float_gt NaN c = False"

text \<open>The lambdas of the condition columns (source lines 978 to 994), one per column.\<close>

definition no_of_pub_condition_10_years_of :: "int \<Rightarrow> int" where
  "no_of_pub_condition_10_years_of x = (if 8 \<le> x then 1 else 0)"

definition no_of_pub_condition_5_years_of :: "int \<Rightarrow> int" where
  "no_of_pub_condition_5_years_of x = (if 3 \<le> x then 1 else 0)"

definition no_of_pub_condition_2_years_of :: "int \<Rightarrow> int" where
  "no_of_pub_condition_2_years_of x = (if 1 \<le> x then 1 else 0)"

text \<open>
  The element-wise \<^verbatim>\<open>&\<close> evaluates both operands on every row, so the division is
  computed also where the total is zero; \<^verbatim>\<open>astype(int)\<close> turns the truth value into 1 or 0.
\<close>

definition english_condition_of :: "int \<Rightarrow> int \<Rightarrow> int" where
  "english_condition_of total_pubs english_pubs =
     (let has_pubs = (0 < total_pubs);
          ratio = truediv english_pubs total_pubs
      in if has_pubs \<and> float_gt ratio (1 / 2) then 1 else 0)"

definition coauthor_condition_of :: "bool \<Rightarrow> int" where
  "coauthor_condition_of x = (if \<not> x then 1 else 0)"

definition aff_condition_of :: "string \<Rightarrow> int" where
  "aff_condition_of x = (if x = ''NO'' then 1 else 0)"

definition country_match_condition_of :: "string \<Rightarrow> int" where
  "country_match_condition_of x = (if x = ''YES'' then 1 else 0)"

definition retracted_condition_of :: "int \<Rightarrow> int" where
  "retracted_condition_of x = (if 1 < x then 1 else 0)"

text \<open>Python's \<^verbatim>\<open>str\<close> of an integer, for \<^verbatim>\<open>astype(str)\<close>.\<close>

fun str_nat :: "nat \<Rightarrow> string" where
  "str_nat n =
     (if n < 10 then [''0123456789'' ! n]
      else str_nat (n div 10) @ [''0123456789'' ! (n mod 10)])"

definition str_int :: "int \<Rightarrow> string" where
  "str_int i = (if i < 0 then CHR ''-'' # str_nat (nat (- i)) else str_nat (nat i))"

text \<open>
  The condition columns and the score of one row; \<^verbatim>\<open>conditions_met\<close> sums the eight
  columns in the order of the source's column list.
\<close>

definition score_of :: "metrics \<Rightarrow> condition_score" where
  "score_of m =
     (let c10 = no_of_pub_condition_10_years_of (Publications_10_years m);
          c5 = no_of_pub_condition_5_years_of (Relevant_Publications_5_years m);
          c2 = no_of_pub_condition_2_years_of (Publications_2_years m);
          en = english_condition_of (Total_Publications m) (English_Pubs m);
          co = coauthor_condition_of (coauthor m);
          af = aff_condition_of (aff_match m);
          cm = country_match_condition_of (country_match m);
          re = retracted_condition_of (Retracted_Pubs_no m);
          met = c10 + en + co + af + cm + c5 + c2 + re
      in \<lparr>no_of_pub_condition_10_years = c10,
          no_of_pub_condition_5_years = c5,
          no_of_pub_condition_2_years = c2,
          english_condition = en,
          coauthor_condition = co,
          aff_condition = af,
          country_match_condition = cm,
          retracted_condition = re,
          conditions_met = met,
          conditions_satisfied = str_int met @ '' of 8''\<rparr>)"

text \<open>
  An assignment \<^verbatim>\<open>df['col'] = ...\<close> creates the column or overwrites it, so the same
  statements run on a frame without the condition columns and on one that has them.
\<close>

definition score_row :: "'a enriched_row_scheme \<Rightarrow> scored_row" where
  "score_row r = \<lparr>who = who r, vm = vm r, score = score_of (vm r)\<rparr>"

text \<open>The column assignments work row by row on the whole frame.\<close>

definition add_condition_columns :: "'a enriched_row_scheme list \<Rightarrow> scored_row list" where
  "add_condition_columns df = map score_row df"

text \<open>Two candidates and a row of metrics, for evaluating the definitions.\<close>

definition candidate_a :: "cell candidate" where
  "candidate_a = \<lparr>author = Some ''Jane Doe'', email = Some ''jane@a.org'',
     aff = Some ''Univ A, Oslo, Norway'', city = Some ''Oslo'', country = Some ''Norway''\<rparr>"

definition candidate_b :: "cell candidate" where
  "candidate_b = \<lparr>author = Some ''Ravi Rao'', email = Some ''ravi@b.org'',
     aff = Some ''Univ B, Pune, India'', city = Some ''Pune'', country = Some ''India''\<rparr>"

definition metrics_0 :: metrics where
  "metrics_0 = \<lparr>Total_Publications = 0, Total_Publications_first = 0,
     Total_Publications_last = 0, Publications_10_years = 0,
     Publications_10_years_first = 0, Publications_10_years_last = 0,
     Publications_5_years = 0, Publications_5_years_first = 0,
     Publications_5_years_last = 0, Relevant_Publications_5_years = 0,
     Relevant_Publications_5_years_first = 0, Relevant_Publications_5_years_last = 0,
     Publications_2_years = 0, Publications_2_years_first = 0,
     Publications_2_years_last = 0, Publications_last_year = 0,
     Publications_last_year_first = 0, Publications_last_year_last = 0,
     Clinical_Trials_no = 0, Retracted_Pubs_no = 0, Clinical_study_no = 0,
     Case_reports_no = 0, TF_Publications_last_year = 0, English_Pubs = 0,
     coauthor = False, country_match = ''YES'', aff_match = ''NO''\<rparr>"

section \<open>External collaborators\<close>

text \<open>
  The functions that the module imports from the scraping and parsing modules, and the
  library's sort, are parameters of the model: one record holds them. An author or
  affiliation argument is a cell of the frame. The optional arguments of
  \<^verbatim>\<open>get_pubmed_count_selenium\<close> are \<^verbatim>\<open>last_n_years\<close>, \<^verbatim>\<open>keyword_string\<close> and \<^verbatim>\<open>role\<close>,
  \<open>None\<close> when the call leaves one out. \<open>country_extract\<close> stands for the collaborator
  followed by \<^verbatim>\<open>json.loads\<close>. A collaborator is a total function here: it answers every
  call, as the specification asks of it; only the lookup of \<^verbatim>\<open>search_pubmed_author\<close>, whose
  exception the source catches, can raise. \<open>sort_values\<close> is the library call
  \<^verbatim>\<open>sort_values(by='conditions_met', ascending=False)\<close> of line 1005, with the default sort
  kind; nothing is assumed about it.
\<close>

datatype py_error = KeyError | AttributeError

text \<open>What the affiliation parser returns: nothing, a text, or a set of candidate texts.\<close>

datatype parsed = Nothing | Text string | Candidates "string list"

text \<open>\<^verbatim>\<open>search_pubmed_author\<close> returns a pair of email and affiliation, or raises.\<close>

datatype lookup = Raised | Found cell cell

record collaborators =
  get_pubmed_count_selenium :: "cell \<Rightarrow> nat option \<Rightarrow> string option \<Rightarrow> string option \<Rightarrow> int"
  clinical_trails_no :: "cell \<Rightarrow> nat \<Rightarrow> int"
  pubmed_filtered_count :: "cell \<Rightarrow> string \<Rightarrow> nat option \<Rightarrow> int"
  search_tandfonline_author :: "cell \<Rightarrow> string \<Rightarrow> string \<Rightarrow> int"
  pubmed_english_count :: "cell \<Rightarrow> int"
  check_coauthorship_selenium :: "string \<Rightarrow> string \<Rightarrow> bool"
  country_extract :: "cell list \<Rightarrow> string list"
  check_country_in_list :: "cell \<Rightarrow> string list \<Rightarrow> string"
  check_aff_match :: "cell \<Rightarrow> cell list \<Rightarrow> string"
  sort_values :: "scored_row list \<Rightarrow> scored_row list"
  search_pubmed_author :: "string \<Rightarrow> lookup"
  extract_city :: "string \<Rightarrow> parsed"
  extract_country :: "string \<Rightarrow> parsed"

text \<open>Collaborators that find nothing, for evaluating the definitions.\<close>

definition collaborators_0 :: collaborators where
  "collaborators_0 =
     \<lparr>get_pubmed_count_selenium = (\<lambda>a years kw who_role. 0),
      clinical_trails_no = (\<lambda>a years. 0),
      pubmed_filtered_count = (\<lambda>a label years. 0),
      search_tandfonline_author = (\<lambda>a year_from year_to. 0),
      pubmed_english_count = (\<lambda>a. 0),
      check_coauthorship_selenium = (\<lambda>a b. False),
      country_extract = (\<lambda>affs. []),
      check_country_in_list = (\<lambda>a countries. ''NO''),
      check_aff_match = (\<lambda>a affs. ''NO''),
      sort_values = (\<lambda>df. df),
      search_pubmed_author = (\<lambda>name. Found None None),
      extract_city = (\<lambda>a. Nothing),
      extract_country = (\<lambda>a. Nothing)\<rparr>"

section \<open>Text helpers\<close>

text \<open>
  The whitespace of \<^verbatim>\<open>str.strip()\<close> and of the pattern \<^verbatim>\<open>\s\<close>, on ASCII: tab, line feed,
  vertical tab, form feed, carriage return, the four separators 28 to 31, and space.
\<close>

definition is_space :: "char \<Rightarrow> bool" where
  "is_space c = (let n = (of_char c :: nat) in (9 \<le> n \<and> n \<le> 13) \<or> (28 \<le> n \<and> n \<le> 32))"

text \<open>The word characters of the pattern \<^verbatim>\<open>\b\<close>, on ASCII: letters, digits, underscore.\<close>

definition is_word :: "char \<Rightarrow> bool" where
  "is_word c =
     (let n = (of_char c :: nat)
      in (48 \<le> n \<and> n \<le> 57) \<or> (65 \<le> n \<and> n \<le> 90) \<or> n = 95 \<or> (97 \<le> n \<and> n \<le> 122))"

definition strip :: "string \<Rightarrow> string" where
  "strip s = rev (dropWhile is_space (rev (dropWhile is_space s)))"

text \<open>\<^verbatim>\<open>sep.join(xs)\<close>.\<close>

fun join :: "string \<Rightarrow> string list \<Rightarrow> string" where
  "join sep [] = []"
| "join sep [x] = x"
| "join sep (x # y # ys) = x @ sep @ join sep (y # ys)"

text \<open>\<^verbatim>\<open>s.split(d)\<close> for a one-character separator; the first argument collects the current piece.\<close>

fun split_on :: "char \<Rightarrow> string \<Rightarrow> string \<Rightarrow> string list" where
  "split_on d piece [] = [piece]"
| "split_on d piece (c # cs) =
     (if c = d then piece # split_on d [] cs else split_on d (piece @ [c]) cs)"

section \<open>Keyword query (\<^verbatim>\<open>keyword_string_generator\<close>, lines 436 to 458)\<close>

definition clean_keywords :: "string \<Rightarrow> string list" where
  "clean_keywords keywords_input =
     map strip (filter (\<lambda>kw. strip kw \<noteq> []) (split_on CHR '','' [] keywords_input))"

definition build_string :: "string list \<Rightarrow> string" where
  "build_string keywords =
     (let kws = filter (\<lambda>kw. kw \<noteq> []) keywords
      in case kws of
           [] \<Rightarrow> []
         | [kw] \<Rightarrow> ''('' @ kw @ '')''
         | _ \<Rightarrow> ''('' @ join '' OR '' kws @ '')'')"

definition keyword_string :: "string list \<Rightarrow> string list \<Rightarrow> string" where
  "keyword_string primary_keywords secondary_keywords =
     (let primary_str = build_string primary_keywords;
          secondary_str = build_string secondary_keywords
      in if primary_str \<noteq> [] \<and> secondary_str \<noteq> [] then primary_str @ '' AND '' @ secondary_str
         else if primary_str \<noteq> [] then primary_str
         else secondary_str)"

definition keyword_string_of_inputs :: "string \<Rightarrow> string \<Rightarrow> string" where
  "keyword_string_of_inputs primary_keywords_input secondary_keywords_input =
     keyword_string (clean_keywords primary_keywords_input)
       (clean_keywords secondary_keywords_input)"

section \<open>Candidate pool (\<^verbatim>\<open>database_search\<close>, lines 611 to 647)\<close>

text \<open>
  One row of \<^verbatim>\<open>final_df\<close>, as far as the merge reads it: the two dictionaries
  \<^verbatim>\<open>Author_Email_Map\<close> and \<^verbatim>\<open>Author_with_Affiliation\<close>, each an association list in
  insertion order. A value is a text or \<open>None\<close>.
\<close>

type_synonym source_record = "(string \<times> cell) list \<times> (string \<times> cell) list"

text \<open>Line 612: rows with an empty email map or an empty affiliation map are dropped.\<close>

definition filter_valid :: "source_record list \<Rightarrow> source_record list" where
  "filter_valid final_df = filter (\<lambda>(email_map, aff_map). email_map \<noteq> [] \<and> aff_map \<noteq> []) final_df"

text \<open>
  Lines 616 to 629: one record per key of the email map, the affiliation looked up under
  the same key with the default \<^verbatim>\<open>""\<close>.
\<close>

definition records_of_row :: "source_record \<Rightarrow> (string \<times> cell \<times> cell) list" where
  "records_of_row row =
     (case row of (email_map, aff_map) \<Rightarrow>
        map (\<lambda>(a, e). (a, e, (case map_of aff_map a of Some v \<Rightarrow> v | None \<Rightarrow> Some []))) email_map)"

definition records_of :: "source_record list \<Rightarrow> (string \<times> cell \<times> cell) list" where
  "records_of final_df = concat (map records_of_row final_df)"

text \<open>\<^verbatim>\<open>dropna\<close>: a record with a missing email or affiliation is dropped.\<close>

definition dropna_records :: "(string \<times> cell \<times> cell) list \<Rightarrow> (string \<times> string \<times> string) list" where
  "dropna_records records =
     concat (map (\<lambda>(a, e, f). case (e, f) of (Some e', Some f') \<Rightarrow> [(a, e', f')] | _ \<Rightarrow> []) records)"

definition DEGREE_WORDS :: "string list" where
  "DEGREE_WORDS = [''MD'', ''PhD'', ''BD'', ''MS'', ''MSc'', ''BSc'', ''DDS'', ''DO'', ''DVM'',
     ''DrPH'', ''MPH'', ''MBA'', ''EdD'', ''DPhil'', ''ScD'', ''DSc'', ''FRCP'', ''FRCS'', ''DPM'']"

text \<open>
  The first replacement, of the pattern \<^verbatim>\<open>\b(MD|PhD|...)\b\<close> by the empty string. Every
  alternative consists of word characters and stands between two word boundaries, so a
  match is a maximal run of word characters that is one of the degree words, whatever the
  order of the alternatives. \<open>remove_degrees w s\<close> scans \<open>s\<close> with the current run \<open>w\<close>.
\<close>

definition emit_word :: "string \<Rightarrow> string" where
  "emit_word w = (if w \<in> set DEGREE_WORDS then [] else w)"

fun remove_degrees :: "string \<Rightarrow> string \<Rightarrow> string" where
  "remove_degrees w [] = emit_word w"
| "remove_degrees w (c # cs) =
     (if is_word c then remove_degrees (w @ [c]) cs
      else emit_word w @ c # remove_degrees [] cs)"

text \<open>The third replacement, of \<^verbatim>\<open>\s+\<close> by one space; the flag says that a space was just written.\<close>

fun collapse_spaces :: "bool \<Rightarrow> string \<Rightarrow> string" where
  "collapse_spaces in_run [] = []"
| "collapse_spaces in_run (c # cs) =
     (if is_space c then (if in_run then collapse_spaces True cs
                          else CHR '' '' # collapse_spaces True cs)
      else c # collapse_spaces False cs)"

definition clean_author :: "string \<Rightarrow> string" where
  "clean_author name =
     strip (collapse_spaces False (filter (\<lambda>c. c \<noteq> CHR '','') (remove_degrees [] name)))"

text \<open>
  Lines 631 to 647. With no record at all the frame has no column and the access to
  \<^verbatim>\<open>author_email_df["aff"]\<close> raises. The city and country cells hold what the parsing
  collaborators returned.
\<close>

definition author_email_df :: "collaborators \<Rightarrow> source_record list
    \<Rightarrow> py_error + parsed candidate list" where
  "author_email_df C final_df =
     (let records = records_of (filter_valid final_df)
      in if records = [] then Inl KeyError
         else Inr (map (\<lambda>(a, e, f).
                     \<lparr>author = Some (clean_author a), email = Some e, aff = Some f,
                      city = extract_city C f, country = extract_country C f\<rparr>)
                   (dropna_records records)))"

section \<open>Coauthorship within the pool (\<^verbatim>\<open>validate_authors\<close>, lines 948 to 960)\<close>

text \<open>
  The inner loop for one candidate \<open>a\<close> over the author column. The result is the flag
  and the names handed to the coauthorship collaborator before the loop ended. A missing
  author cell has no \<^verbatim>\<open>strip\<close> method.
\<close>

fun coauthored_with_any :: "(string \<Rightarrow> string \<Rightarrow> bool) \<Rightarrow> string \<Rightarrow> cell list
    \<Rightarrow> py_error + bool \<times> string list" where
  "coauthored_with_any check a [] = Inr (False, [])"
| "coauthored_with_any check a (None # authors) = Inl AttributeError"
| "coauthored_with_any check a (Some ref_author # authors) =
     (if check a (strip ref_author) then Inr (True, [strip ref_author])
      else case coauthored_with_any check a authors of
             Inl e \<Rightarrow> Inl e
           | Inr (flag, asked) \<Rightarrow> Inr (flag, strip ref_author # asked))"

text \<open>The outer loop over the rows; every row is paired with the whole author column.\<close>

fun coauthor_rows :: "(string \<Rightarrow> string \<Rightarrow> bool) \<Rightarrow> cell list \<Rightarrow> cell list
    \<Rightarrow> py_error + (bool \<times> string list) list" where
  "coauthor_rows check authors [] = Inr []"
| "coauthor_rows check authors (None # rows) = Inl AttributeError"
| "coauthor_rows check authors (Some a # rows) =
     (case coauthored_with_any check (strip a) authors of
        Inl e \<Rightarrow> Inl e
      | Inr res \<Rightarrow>
          (case coauthor_rows check authors rows of
             Inl e \<Rightarrow> Inl e
           | Inr others \<Rightarrow> Inr (res # others)))"

definition coauthor_results :: "(string \<Rightarrow> string \<Rightarrow> bool) \<Rightarrow> cell list
    \<Rightarrow> py_error + (bool \<times> string list) list" where
  "coauthor_results check authors = coauthor_rows check authors authors"

text \<open>
  For stating when the inner loop stops: the names up to and including the first one that
  \<open>hit\<close> accepts, or all of them when it accepts none.
\<close>

definition asked_until_first :: "(string \<Rightarrow> bool) \<Rightarrow> string list \<Rightarrow> string list" where
  "asked_until_first hit names =
     takeWhile (\<lambda>r. \<not> hit r) names @ take 1 (dropWhile (\<lambda>r. \<not> hit r) names)"

text \<open>
  The pairing rule in the words of the specification: the candidate at position \<open>i\<close> is
  paired positively with a candidate at another position of the pool.
\<close>

definition paired_with_other :: "(string \<Rightarrow> string \<Rightarrow> bool) \<Rightarrow> string list \<Rightarrow> nat \<Rightarrow> bool" where
  "paired_with_other check names i =
     list_ex (\<lambda>j. j \<noteq> i \<and> check (strip (names ! i)) (strip (names ! j))) [0..<length names]"

section \<open>Job store and responses\<close>

text \<open>
  The folder of one job under \<^verbatim>\<open>API_uploads\<close>, as far as the two stages below read and
  write it: the candidate table \<^verbatim>\<open>author_email_df_before_val.csv\<close>, the files matching
  \<^verbatim>\<open>*_keywordstring.json\<close> in the order of the directory listing (each with its
  \<^verbatim>\<open>"keyword_string"\<close> entry, \<open>None\<close> when the key is absent), and the three tables that
  the validation writes. A table that is \<open>None\<close> does not exist. A CSV table is held as
  \<^verbatim>\<open>read_csv\<close> returns it, with text cells.
\<close>

record job_dir =
  author_email_df_before_val :: "cell candidate list option"
  keywordstring_files :: "cell list"
  author_email_df_after_val :: "scored_row list option"
  Final_authors :: "scored_row list option"
  Final_authors_display :: "(string list \<times> scored_row list) option"

type_synonym job_store = "string \<Rightarrow> job_dir option"

text \<open>
  The content of a JSON response: an error text, the summary of a validation (message,
  job id, number of authors, the first five rows), or the added author (message, job id,
  the new row). A response is a \<^verbatim>\<open>JSONResponse\<close> with its status code, or an exception
  that leaves the endpoint unhandled.
\<close>

datatype reply =
  Error string
| Validated string string nat "scored_row list"
| Added string string "cell candidate"

datatype response = JSONResponse reply nat | Unhandled py_error

definition quoted :: "string \<Rightarrow> string" where
  "quoted s = CHR 0x27 # s @ [CHR 0x27]"

section \<open>Validation stage (\<^verbatim>\<open>validate_authors\<close>, lines 777 to 1036)\<close>

text \<open>\<^verbatim>\<open>list(dict.fromkeys(xs))\<close>: the distinct elements in the order of their first occurrence.\<close>

definition dict_fromkeys :: "'a list \<Rightarrow> 'a list" where
  "dict_fromkeys xs = fold (\<lambda>x seen. if x \<in> set seen then seen else seen @ [x]) xs []"

text \<open>Lines 811 to 816: the keyword string of the first matching file, empty without one.\<close>

definition load_keyword_string :: "job_dir \<Rightarrow> string" where
  "load_keyword_string dir =
     (case keywordstring_files dir of
        [] \<Rightarrow> []
      | keyword_data # _ \<Rightarrow> (case keyword_data of None \<Rightarrow> [] | Some k \<Rightarrow> k))"

text \<open>
  Lines 823 to 975 for one row: the metric columns, each one call of a collaborator, the
  coauthor flag of the row, and the two match columns.
\<close>

definition enrich_row :: "collaborators \<Rightarrow> string \<Rightarrow> cell list \<Rightarrow> string list \<Rightarrow> cell candidate
    \<Rightarrow> bool \<Rightarrow> enriched_row" where
  "enrich_row C keyword_str original_aff unique_countries_list c flag =
     (let a = author c; count = get_pubmed_count_selenium C
      in \<lparr>who = c,
          vm = \<lparr>Total_Publications = count a None None None,
                Total_Publications_first = count a None None (Some ''first''),
                Total_Publications_last = count a None None (Some ''last''),
                Publications_10_years = count a (Some 10) None None,
                Publications_10_years_first = count a (Some 10) None (Some ''first''),
                Publications_10_years_last = count a (Some 10) None (Some ''last''),
                Publications_5_years = count a (Some 5) None None,
                Publications_5_years_first = count a (Some 5) None (Some ''first''),
                Publications_5_years_last = count a (Some 5) None (Some ''last''),
                Relevant_Publications_5_years = count a (Some 5) (Some keyword_str) None,
                Relevant_Publications_5_years_first =
                  count a (Some 5) (Some keyword_str) (Some ''first''),
                Relevant_Publications_5_years_last =
                  count a (Some 5) (Some keyword_str) (Some ''last''),
                Publications_2_years = count a (Some 2) None None,
                Publications_2_years_first = count a (Some 2) None (Some ''first''),
                Publications_2_years_last = count a (Some 2) None (Some ''last''),
                Publications_last_year = count a (Some 1) None None,
                Publications_last_year_first = count a (Some 1) None (Some ''first''),
                Publications_last_year_last = count a (Some 1) None (Some ''last''),
                Clinical_Trials_no = clinical_trails_no C a 2,
                Retracted_Pubs_no = pubmed_filtered_count C a ''Retracted Publication'' None,
                Clinical_study_no = pubmed_filtered_count C a ''Clinical Study'' (Some 2),
                Case_reports_no = pubmed_filtered_count C a ''Case Reports'' (Some 2),
                TF_Publications_last_year = search_tandfonline_author C a ''2024'' ''2025'',
                English_Pubs = pubmed_english_count C a,
                coauthor = flag,
                country_match = check_country_in_list C (aff c) unique_countries_list,
                aff_match = check_aff_match C (aff c) original_aff\<rparr>\<rparr>)"

text \<open>
  The column names of the validated frame after the renaming of \<^verbatim>\<open>author\<close> to
  \<^verbatim>\<open>reviewer\<close>, in the order of their creation, and the names that the display projection
  of lines 1016 to 1024 asks for.
\<close>

definition validated_columns :: "string list" where
  "validated_columns =
     [''reviewer'', ''email'', ''aff'', ''city'', ''country'',
      ''Total_Publications'', ''Total_Publications_first'', ''Total_Publications_last'',
      ''Publications_10_years'', ''Publications_10_years_first'', ''Publications_10_years_last'',
      ''Publications_5_years'', ''Publications_5_years_first'', ''Publications_5_years_last'',
      ''Relevant_Publications_5_years'', ''Relevant_Publications_5_years_first'',
      ''Relevant_Publications_5_years_last'',
      ''Publications_2_years)'', ''Publications_2_years_first)'', ''Publications_2_years_last)'',
      ''Publications_last_year)'', ''Publications_last_year_first)'',
      ''Publications_last_year_last)'',
      ''Clinical_Trials_no'', ''Retracted_Pubs_no'', ''Clinical_study_no'', ''Case_reports_no'',
      ''TF_Publications_last_year'', ''English_Pubs'', ''coauthor'', ''country_match'',
      ''aff_match'', ''no_of_pub_condition_10_years'', ''no_of_pub_condition_5_years'',
      ''no_of_pub_condition_2_years'', ''english_condition'', ''coauthor_condition'',
      ''aff_condition'', ''country_match_condition'', ''retracted_condition'',
      ''conditions_met'', ''conditions_satisfied'']"

definition display_columns :: "string list" where
  "display_columns =
     [''reviewer'', ''email'', ''aff'', ''country'', ''Total_Publications'', ''English_Pubs'',
      ''Publications_10_years'', ''Relevant_Publications_5_years'',
      ''Publications_2_years)'', ''Publications_last_year'', ''Clinical_Trials_no'',
      ''Clinical_study_no'', ''Case_reports_no'', ''Retracted_Pubs_no'',
      ''TF_Publications_last_year'', ''coauthor'', ''country_match'', ''aff_match'',
      ''no_of_pub_condition_10_years'', ''no_of_pub_condition_5_years'',
      ''no_of_pub_condition_2_years'', ''english_condition'', ''coauthor_condition'',
      ''aff_condition'', ''country_match_condition'', ''retracted_condition'',
      ''conditions_met'', ''conditions_satisfied'']"

text \<open>
  Lines 820 to 1036, once the candidate table \<open>df\<close> and the keyword string are loaded.
  The coauthorship loop can raise on a missing author cell. The two full tables are
  written before the display projection is taken (they hold the same rows, the second
  under the column name \<^verbatim>\<open>reviewer\<close>); selecting a column that the frame does not have
  raises \<^verbatim>\<open>KeyError\<close>.
\<close>

definition run_validation :: "collaborators \<Rightarrow> job_store \<Rightarrow> string \<Rightarrow> job_dir
    \<Rightarrow> cell candidate list \<Rightarrow> string \<Rightarrow> response \<times> job_store" where
  "run_validation C store job_id dir df keyword_str =
     (case coauthor_results (check_coauthorship_selenium C) (map author df) of
        Inl e \<Rightarrow> (Unhandled e, store)
      | Inr coauthor_flags \<Rightarrow>
          (let original_aff = map aff df;
               unique_countries_list = dict_fromkeys (country_extract C original_aff);
               enriched = map (\<lambda>(c, flag, asked).
                    enrich_row C keyword_str original_aff unique_countries_list c flag)
                  (zip df coauthor_flags);
               ranked = sort_values C (add_condition_columns enriched);
               written = dir\<lparr>author_email_df_after_val := Some ranked,
                            Final_authors := Some ranked\<rparr>
           in if list_all (\<lambda>col. col \<in> set validated_columns) display_columns
              then (JSONResponse
                      (Validated (''Author validation and scoring completed successfully for job_id ''
                                  @ quoted job_id @ ''.'')
                         job_id (length ranked) (take 5 ranked)) 200,
                    store(job_id \<mapsto> written\<lparr>Final_authors_display :=
                                             Some (display_columns, ranked)\<rparr>))
              else (Unhandled KeyError, store(job_id \<mapsto> written))))"

text \<open>Lines 785 to 818: the two checks of the stage, then the loading of the keyword string.\<close>

definition validate_authors :: "collaborators \<Rightarrow> job_store \<Rightarrow> string \<Rightarrow> response \<times> job_store" where
  "validate_authors C store job_id =
     (case store job_id of
        None \<Rightarrow>
          (JSONResponse (Error (''Invalid job_id '' @ quoted job_id
                                @ ''. Please run /database_search first.'')) 404, store)
      | Some dir \<Rightarrow>
          (case author_email_df_before_val dir of
             None \<Rightarrow>
               (JSONResponse (Error
                  ''No author_email_df_before_val.csv found. Please run /database_search first.'')
                  404, store)
           | Some df \<Rightarrow> run_validation C store job_id dir df (load_keyword_string dir)))"

section \<open>Manual author addition (\<^verbatim>\<open>manual_authors\<close>, lines 670 to 770)\<close>

text \<open>Python's truth test of an optional text: \<open>None\<close> and the empty text are false.\<close>

definition falsy :: "cell \<Rightarrow> bool" where
  "falsy c = (case c of None \<Rightarrow> True | Some s \<Rightarrow> s = [])"

text \<open>The text of a cell that passed the truth test.\<close>

definition text_of :: "cell \<Rightarrow> string" where
  "text_of c = (case c of None \<Rightarrow> [] | Some s \<Rightarrow> s)"

text \<open>
  Lines 724 to 732: a set of candidates is joined by \<^verbatim>\<open>", "\<close>, nothing becomes the empty
  text.
\<close>

fun joined_text :: "parsed \<Rightarrow> string" where
  "joined_text Nothing = []"
| "joined_text (Text s) = s"
| "joined_text (Candidates xs) = join '', '' xs"

text \<open>
  Lines 752 and 753: \<^verbatim>\<open>str(v) if v else ""\<close>. The text of a non-empty set lists its
  elements in quotes between braces (for names without quotes or backslashes).
\<close>

fun str_or_empty :: "parsed \<Rightarrow> string" where
  "str_or_empty Nothing = []"
| "str_or_empty (Text s) = s"
| "str_or_empty (Candidates xs) =
     (if xs = [] then [] else ''{'' @ join '', '' (map quoted xs) @ ''}'')"

text \<open>\<^verbatim>\<open>dropna\<close> on the candidate table: a row with a missing cell in any column is dropped.\<close>

definition dropna :: "cell candidate list \<Rightarrow> cell candidate list" where
  "dropna df = filter (\<lambda>r. author r \<noteq> None \<and> email r \<noteq> None \<and> aff r \<noteq> None
                         \<and> city r \<noteq> None \<and> country r \<noteq> None) df"

text \<open>
  Writing the table with \<^verbatim>\<open>to_csv\<close> and reading it back with \<^verbatim>\<open>read_csv\<close>: a missing
  cell is written as an empty field, and a field comes back as a missing cell when it is
  empty or one of the spellings that \<^verbatim>\<open>read_csv\<close> takes for a missing value by default.
  The columns are taken to stay text columns.
\<close>

definition na_values :: "string list" where
  "na_values = [[], ''#N/A'', ''#N/A N/A'', ''#NA'', ''-1.#IND'', ''-1.#QNAN'', ''-NaN'',
     ''-nan'', ''1.#IND'', ''1.#QNAN'', ''<NA>'', ''N/A'', ''NA'', ''NULL'', ''NaN'', ''None'',
     ''n/a'', ''nan'', ''null'']"

definition csv_cell :: "cell \<Rightarrow> cell" where
  "csv_cell c =
     (case c of None \<Rightarrow> None | Some s \<Rightarrow> (if s \<in> set na_values then None else Some s))"

definition to_csv :: "cell candidate list \<Rightarrow> cell candidate list" where
  "to_csv df = map (\<lambda>r. \<lparr>author = csv_cell (author r), email = csv_cell (email r),
                          aff = csv_cell (aff r), city = csv_cell (city r),
                          country = csv_cell (country r)\<rparr>) df"

text \<open>Lines 752 and 753 for one row; after \<^verbatim>\<open>dropna\<close> every row has an affiliation text.\<close>

definition reparse_row :: "collaborators \<Rightarrow> cell candidate \<Rightarrow> cell candidate" where
  "reparse_row C r =
     (case aff r of
        None \<Rightarrow> r
      | Some x \<Rightarrow> r\<lparr>city := Some (str_or_empty (extract_city C x)),
                     country := Some (str_or_empty (extract_country C x))\<rparr>)"

definition manual_authors :: "collaborators \<Rightarrow> job_store \<Rightarrow> string \<Rightarrow> string
    \<Rightarrow> response \<times> job_store" where
  "manual_authors C store job_id author_name =
     (case store job_id of
        None \<Rightarrow>
          (JSONResponse (Error (''Invalid job_id '' @ quoted job_id
                                @ ''. Please upload and extract metadata first.'')) 404, store)
      | Some dir \<Rightarrow>
          (let df = (case author_email_df_before_val dir of Some t \<Rightarrow> t | None \<Rightarrow> [])
           in case search_pubmed_author C author_name of
                Raised \<Rightarrow>
                  (JSONResponse (Error (''Failed to search for author '' @ quoted author_name
                                        @ ''. Please try again.'')) 500, store)
              | Found author_email author_affiliation \<Rightarrow>
                  if strip author_name = [] \<or> falsy author_email \<or> falsy author_affiliation
                  then (JSONResponse (Error (''Author '' @ quoted author_name
                          @ '' not found or missing email/affiliation.'')) 404, store)
                  else
                    (let e = text_of author_email; a = text_of author_affiliation;
                         new_author =
                           \<lparr>author = Some (strip author_name), email = Some (strip e),
                            aff = Some (strip a),
                            city = Some (joined_text (extract_city C (strip a))),
                            country = Some (joined_text (extract_country C (strip a)))\<rparr>;
                         table = map (reparse_row C) (dropna (df @ [new_author]))
                     in (JSONResponse
                           (Added (''Author '' @ quoted author_name @ '' added successfully.'')
                              job_id new_author) 200,
                         store(job_id \<mapsto> dir\<lparr>author_email_df_before_val :=
                                                  Some (to_csv table)\<rparr>)))))"

text \<open>A store with one job that holds a candidate table and no keyword-string file.\<close>

definition job_dir_0 :: job_dir where
  "job_dir_0 = \<lparr>author_email_df_before_val = Some [candidate_a], keywordstring_files = [],
     author_email_df_after_val = None, Final_authors = None, Final_authors_display = None\<rparr>"

definition store_0 :: job_store where
  "store_0 = [''job_1'' \<mapsto> job_dir_0]"

section \<open>Properties of the condition scoring\<close>

lemma score_row_score: "score (score_row r) = score_of (vm r)"
  by (simp add: score_row_def)

lemma vm_score_row: "vm (score_row r) = vm r"
  by (simp add: score_row_def)

lemma who_score_row: "who (score_row r) = who r"
  by (simp add: score_row_def)

text \<open>
  C8: condition 1 of a scored row is 1 exactly when the row's trailing-10-year
  publication count is at least 8; a count of 8 gives 1 and a count of 7 gives 0.
\<close>

theorem condition_10_years_threshold:
  "(no_of_pub_condition_10_years (score (score_row r)) = 1) = (8 \<le> Publications_10_years (vm r))
   \<and> (no_of_pub_condition_10_years (score (score_row r)) = 0) = (Publications_10_years (vm r) < 8)
   \<and> no_of_pub_condition_10_years_of 8 = 1
   \<and> no_of_pub_condition_10_years_of 7 = 0"
  by (simp add: score_row_score score_of_def Let_def no_of_pub_condition_10_years_of_def)

text \<open>
  C9: for a candidate whose total-publication count is 0 the English-ratio condition is 0.
  The division by the total is computed all the same; it raises nothing and yields
  \<open>inf\<close>, \<open>-inf\<close> or \<open>nan\<close>, and the test that the total is positive masks it.
\<close>

theorem english_condition_zero_total:
  "Total_Publications (vm r) = 0 \<Longrightarrow>
     english_condition (score (score_row r)) = 0
     \<and> truediv (English_Pubs (vm r)) (Total_Publications (vm r)) \<in> {PosInf, NegInf, NaN}"
  by (simp add: score_row_score score_of_def Let_def english_condition_of_def truediv_def)

theorem english_condition_zero_total_witness:
  "Total_Publications (vm \<lparr>who = candidate_a, vm = metrics_0\<lparr>English_Pubs := 4\<rparr>\<rparr>) = 0
   \<and> english_condition
        (score (score_row \<lparr>who = candidate_a, vm = metrics_0\<lparr>English_Pubs := 4\<rparr>\<rparr>)) = 0
   \<and> truediv 4 0 = PosInf"
  using english_condition_zero_total
    [of "\<lparr>who = candidate_a, vm = metrics_0\<lparr>English_Pubs := 4\<rparr>\<rparr>"]
  by (simp add: metrics_0_def truediv_def)

text \<open>
  C1, as the code computes it: the retraction column of a scored row is 1 exactly when
  the retracted-publication count is greater than 1. A candidate with no retracted
  publication gets 0, a candidate with two gets 1.
\<close>

theorem retracted_condition_as_coded:
  "(retracted_condition (score (score_row r)) = 1) = (1 < Retracted_Pubs_no (vm r))
   \<and> retracted_condition (score (score_row \<lparr>who = candidate_a, vm = metrics_0\<rparr>)) = 0
   \<and> retracted_condition
        (score (score_row \<lparr>who = candidate_a, vm = metrics_0\<lparr>Retracted_Pubs_no := 2\<rparr>\<rparr>)) = 1"
  by (simp add: score_row_score score_of_def Let_def retracted_condition_of_def metrics_0_def)

lemma score_row_again: "score_row (score_row r) = score_row r"
  by (simp add: score_row_def)

lemma add_condition_columns_score:
  "map score (add_condition_columns df) = map score_of (map vm df)"
  by (simp add: add_condition_columns_def score_row_score)

text \<open>
  C7: the condition columns, \<^verbatim>\<open>conditions_met\<close> and \<^verbatim>\<open>conditions_satisfied\<close> of a
  frame are a function of its metrics columns alone. Running the column assignments
  again on the frame they produced changes nothing, and two frames with the same metrics
  get the same score columns, whoever the candidates are.
\<close>

theorem condition_scoring_deterministic:
  "add_condition_columns (add_condition_columns df) = add_condition_columns df
   \<and> (map vm df = map vm df' \<longrightarrow>
        map score (add_condition_columns df) = map score (add_condition_columns df'))"
proof -
  have "add_condition_columns (add_condition_columns df) = add_condition_columns df"
    by (simp add: add_condition_columns_def score_row_again)
  moreover have "map vm df = map vm df' \<longrightarrow>
      map score (add_condition_columns df) = map score (add_condition_columns df')"
    by (simp add: add_condition_columns_score)
  ultimately show ?thesis by blast
qed

theorem condition_scoring_deterministic_witness:
  "map vm [\<lparr>who = candidate_a, vm = metrics_0\<lparr>Publications_10_years := 9\<rparr>\<rparr>]
     = map vm [\<lparr>who = candidate_b, vm = metrics_0\<lparr>Publications_10_years := 9\<rparr>\<rparr>]
   \<and> map score (add_condition_columns
        [\<lparr>who = candidate_a, vm = metrics_0\<lparr>Publications_10_years := 9\<rparr>\<rparr>])
     = map score (add_condition_columns
        [\<lparr>who = candidate_b, vm = metrics_0\<lparr>Publications_10_years := 9\<rparr>\<rparr>])
   \<and> map (conditions_satisfied \<circ> score) (add_condition_columns
        [\<lparr>who = candidate_a, vm = metrics_0\<lparr>Publications_10_years := 9\<rparr>\<rparr>]) = [''4 of 8'']"
  using condition_scoring_deterministic
    [of "[\<lparr>who = candidate_a, vm = metrics_0\<lparr>Publications_10_years := 9\<rparr>\<rparr>]"
        "[\<lparr>who = candidate_b, vm = metrics_0\<lparr>Publications_10_years := 9\<rparr>\<rparr>]"]
  by (simp add: add_condition_columns_def score_row_score score_of_def Let_def metrics_0_def
      no_of_pub_condition_10_years_of_def no_of_pub_condition_5_years_of_def
      no_of_pub_condition_2_years_of_def english_condition_of_def truediv_def
      coauthor_condition_of_def aff_condition_of_def country_match_condition_of_def
      retracted_condition_of_def str_int_def)

section \<open>Properties of the keyword query\<close>

lemma build_string_filtered:
  "build_string ks =
     (if filter (\<lambda>kw. kw \<noteq> []) ks = [] then []
      else ''('' @ join '' OR '' (filter (\<lambda>kw. kw \<noteq> []) ks) @ '')'')"
  by (simp add: build_string_def Let_def split: list.splits)

lemma build_string_empty_iff: "(build_string ks = []) = (filter (\<lambda>kw. kw \<noteq> []) ks = [])"
  by (simp add: build_string_filtered)

text \<open>
  C6: the query string puts the non-empty terms of each group in parentheses, joined by
  \<^verbatim>\<open>" OR "\<close>, and joins the two clauses by \<^verbatim>\<open>" AND "\<close>; a group of one term is that term
  in parentheses; when one group has no term the result is the other group's clause
  alone. The two examples of the specification evaluate as it says.
\<close>

theorem keyword_string_shape:
  "keyword_string ps ss =
     (let p = filter (\<lambda>kw. kw \<noteq> []) ps; s = filter (\<lambda>kw. kw \<noteq> []) ss
      in if p = [] \<and> s = [] then []
         else if s = [] then ''('' @ join '' OR '' p @ '')''
         else if p = [] then ''('' @ join '' OR '' s @ '')''
         else ''('' @ join '' OR '' p @ '')'' @ '' AND '' @ ''('' @ join '' OR '' s @ '')'')
   \<and> build_string [c # kw] = ''('' @ c # kw @ '')''
   \<and> keyword_string [''asthma'', ''COPD''] [''pediatric''] = ''(asthma OR COPD) AND (pediatric)''
   \<and> keyword_string [''asthma''] [] = ''(asthma)''"
proof -
  have general: "keyword_string ps ss =
     (let p = filter (\<lambda>kw. kw \<noteq> []) ps; s = filter (\<lambda>kw. kw \<noteq> []) ss
      in if p = [] \<and> s = [] then []
         else if s = [] then ''('' @ join '' OR '' p @ '')''
         else if p = [] then ''('' @ join '' OR '' s @ '')''
         else ''('' @ join '' OR '' p @ '')'' @ '' AND '' @ ''('' @ join '' OR '' s @ '')'')"
    unfolding keyword_string_def Let_def build_string_empty_iff
    by (simp add: build_string_filtered)
  have single: "build_string [c # kw] = ''('' @ c # kw @ '')''"
    by (simp add: build_string_def)
  have ex1: "keyword_string [''asthma'', ''COPD''] [''pediatric'']
      = ''(asthma OR COPD) AND (pediatric)''"
    by (simp add: keyword_string_def build_string_def)
  have ex2: "keyword_string [''asthma''] [] = ''(asthma)''"
    by (simp add: keyword_string_def build_string_def)
  from general single ex1 ex2 show ?thesis by blast
qed

theorem keyword_string_shape_witness:
  "keyword_string [''a'', [], ''b c''] [''d''] = ''(a OR b c) AND (d)''"
  using keyword_string_shape [of "[''a'', [], ''b c'']" "[''d'']"] by simp

section \<open>Properties of the coauthorship loop\<close>

lemma coauthored_with_any_text:
  "coauthored_with_any check a (map Some names) =
     Inr (\<exists>r\<in>set names. check a (strip r), asked_until_first (check a) (map strip names))"
  by (induction names) (simp_all add: asked_until_first_def)

lemma coauthor_rows_text:
  "coauthor_rows check (map Some names) (map Some rows) =
     Inr (map (\<lambda>a. (\<exists>r\<in>set names. check (strip a) (strip r),
                     asked_until_first (check (strip a)) (map strip names))) rows)"
  by (induction rows) (simp_all add: coauthored_with_any_text)

text \<open>
  C4, as the code computes it: on a pool whose author cells are all text, the flag of a
  candidate is true exactly when the collaborator accepts the candidate paired with some
  member of the author column, the candidate's own entry included; the collaborator is
  asked about the column's names in order, up to and including the first one it accepts.
\<close>

theorem coauthor_flag_any_pool_member:
  "coauthor_results check (map Some names) =
     Inr (map (\<lambda>a. (\<exists>r\<in>set names. check (strip a) (strip r),
                     asked_until_first (check (strip a)) (map strip names))) names)"
  by (simp add: coauthor_results_def coauthor_rows_text)

theorem coauthor_flag_any_pool_member_witness:
  "coauthor_results (\<lambda>a b. a \<noteq> b \<and> b = ''C'') [Some ''A '', Some ''B'', Some '' C'', Some ''D'']
     = Inr [(True, [''A'', ''B'', ''C'']), (True, [''A'', ''B'', ''C'']),
            (False, [''A'', ''B'', ''C'', ''D'']), (True, [''A'', ''B'', ''C''])]"
  using coauthor_flag_any_pool_member
    [of "(\<lambda>a b. a \<noteq> b \<and> b = ''C'')" "[''A '', ''B'', '' C'', ''D'']"]
  by (simp add: asked_until_first_def strip_def is_space_def)

text \<open>
  C4 as the specification words it fails: with a collaborator that accepts a name paired
  with itself and nothing else, both candidates of a pool of two distinct names are
  flagged, although neither is paired positively with another candidate.
\<close>

theorem coauthor_flag_self_pairing:
  "coauthor_results (\<lambda>a b. a = b) [Some ''Jane Doe'', Some ''Ravi Rao'']
     = Inr [(True, [''Jane Doe'']), (True, [''Jane Doe'', ''Ravi Rao''])]
   \<and> \<not> paired_with_other (\<lambda>a b. a = b) [''Jane Doe'', ''Ravi Rao''] 0
   \<and> \<not> paired_with_other (\<lambda>a b. a = b) [''Jane Doe'', ''Ravi Rao''] 1"
  by (simp add: coauthor_results_def paired_with_other_def strip_def is_space_def upt_rec)

section \<open>Properties of the candidate pool\<close>

lemma clean_author_degree: "clean_author ''Jane Doe, MD'' = ''Jane Doe''"
  by (simp add: clean_author_def emit_word_def DEGREE_WORDS_def is_word_def is_space_def
      strip_def)

lemma clean_author_plain: "clean_author ''Jane Doe'' = ''Jane Doe''"
  by (simp add: clean_author_def emit_word_def DEGREE_WORDS_def is_word_def is_space_def
      strip_def)

lemma clean_author_other: "clean_author ''Ravi Rao'' = ''Ravi Rao''"
  by (simp add: clean_author_def emit_word_def DEGREE_WORDS_def is_word_def is_space_def
      strip_def)

lemma author_email_df_two_records:
  "author_email_df collaborators_0
     [([(''Jane Doe, MD'', Some ''a@x.org'')], [(''Jane Doe, MD'', Some ''Univ A'')]),
      ([(''Jane Doe'', Some ''b@y.org'')], [(''Jane Doe'', Some ''Univ B'')])]
   = Inr [\<lparr>author = Some ''Jane Doe'', email = Some ''a@x.org'', aff = Some ''Univ A'',
           city = Nothing, country = Nothing\<rparr>,
          \<lparr>author = Some ''Jane Doe'', email = Some ''b@y.org'', aff = Some ''Univ B'',
           city = Nothing, country = Nothing\<rparr>]"
  by (simp add: author_email_df_def filter_valid_def records_of_def records_of_row_def
      dropna_records_def clean_author_degree clean_author_plain collaborators_0_def)

lemma author_email_df_two_keys:
  "author_email_df collaborators_0
     [([(''Jane Doe, MD'', Some ''a@x.org''), (''Ravi Rao'', Some ''r@b.org'')],
       [(''Jane Doe, MD'', Some ''Univ A''), (''Ravi Rao'', Some ''Univ B'')]),
      ([(''Jane Doe'', Some ''b@y.org'')], [(''Jane Doe'', Some ''Univ C'')])]
   = Inr [\<lparr>author = Some ''Jane Doe'', email = Some ''a@x.org'', aff = Some ''Univ A'',
           city = Nothing, country = Nothing\<rparr>,
          \<lparr>author = Some ''Ravi Rao'', email = Some ''r@b.org'', aff = Some ''Univ B'',
           city = Nothing, country = Nothing\<rparr>,
          \<lparr>author = Some ''Jane Doe'', email = Some ''b@y.org'', aff = Some ''Univ C'',
           city = Nothing, country = Nothing\<rparr>]"
  by (simp add: author_email_df_def filter_valid_def records_of_def records_of_row_def
      dropna_records_def clean_author_degree clean_author_plain clean_author_other
      collaborators_0_def)

lemma pool_rows:
  assumes "author_email_df C final_df = Inr pool"
  shows "pool = map (\<lambda>(a, e, f).
        \<lparr>author = Some (clean_author a), email = Some e, aff = Some f,
         city = extract_city C f, country = extract_country C f\<rparr>)
      (dropna_records (records_of (filter_valid final_df)))"
  using assms by (simp add: author_email_df_def Let_def split: if_splits)

lemma dropna_records_Nil: "dropna_records [] = []"
  by (simp add: dropna_records_def)

lemma dropna_records_append:
  "dropna_records (xs @ ys) = dropna_records xs @ dropna_records ys"
  by (simp add: dropna_records_def)

lemma dropna_records_Cons:
  "dropna_records ((a, e, f) # xs) =
     (case (e, f) of (Some e', Some f') \<Rightarrow> [(a, e', f')] | _ \<Rightarrow> []) @ dropna_records xs"
  by (simp add: dropna_records_def)

lemma in_dropna_records:
  "((a, e, f) \<in> set (dropna_records recs)) = ((a, Some e, Some f) \<in> set recs)"
  by (induction recs) (auto simp add: dropna_records_Cons dropna_records_def split: option.splits)

lemma in_records_of_row:
  "((a, e, v) \<in> set (records_of_row (email_map, aff_map))) =
     ((a, e) \<in> set email_map
      \<and> v = (case map_of aff_map a of Some w \<Rightarrow> w | None \<Rightarrow> Some []))"
  by (auto simp add: records_of_row_def)

lemma in_records_of:
  "((a, e, v) \<in> set (records_of (filter_valid final_df))) =
     (\<exists>(email_map, aff_map)\<in>set final_df. email_map \<noteq> [] \<and> aff_map \<noteq> []
        \<and> (a, e) \<in> set email_map
        \<and> v = (case map_of aff_map a of Some w \<Rightarrow> w | None \<Rightarrow> Some []))"
  by (auto simp add: records_of_def filter_valid_def in_records_of_row)

lemma count_row_keys:
  "length (filter (\<lambda>(a, e, f). clean_author a = n)
      (dropna_records (map (\<lambda>(a, e).
         (a, e, (case map_of aff_map a of Some v \<Rightarrow> v | None \<Rightarrow> Some []))) em)))
   = length (filter (\<lambda>(a, e). clean_author a = n \<and> e \<noteq> None
                           \<and> map_of aff_map a \<noteq> Some None) em)"
proof (induction em)
  case Nil
  show ?case by (simp add: dropna_records_Nil)
next
  case (Cons x em)
  obtain a e where x: "x = (a, e)" by (cases x)
  show ?case
  proof (cases e)
    case None
    with Cons x show ?thesis by (simp add: dropna_records_Cons)
  next
    case (Some e')
    show ?thesis
    proof (cases "map_of aff_map a")
      case None
      with Cons x Some show ?thesis by (simp add: dropna_records_Cons)
    next
      case found: (Some v)
      with Cons x Some show ?thesis by (cases v) (simp_all add: dropna_records_Cons)
    qed
  qed
qed

lemma count_row:
  "length (filter (\<lambda>(a, e, f). clean_author a = n)
      (dropna_records (records_of_row (email_map, aff_map))))
   = length (filter (\<lambda>(a, e). clean_author a = n \<and> e \<noteq> None
                           \<and> map_of aff_map a \<noteq> Some None) email_map)"
  by (simp add: records_of_row_def count_row_keys)

lemma count_kept:
  "length (filter (\<lambda>(a, e, f). clean_author a = n)
      (dropna_records (records_of (filter_valid final_df))))
   = sum_list (map (\<lambda>(email_map, aff_map).
        if email_map \<noteq> [] \<and> aff_map \<noteq> []
        then length (filter (\<lambda>(a, e). clean_author a = n \<and> e \<noteq> None
                                \<and> map_of aff_map a \<noteq> Some None) email_map)
        else 0) final_df)"
proof (induction final_df)
  case Nil
  then show ?case by (simp add: records_of_def filter_valid_def dropna_records_Nil)
next
  case (Cons row rows)
  obtain email_map aff_map where row: "row = (email_map, aff_map)" by (cases row)
  have step: "records_of (filter_valid (row # rows)) =
      (if email_map \<noteq> [] \<and> aff_map \<noteq> [] then records_of_row (email_map, aff_map) else [])
      @ records_of (filter_valid rows)"
    by (simp add: records_of_def filter_valid_def row)
  show ?case
    unfolding step dropna_records_append filter_append length_append Cons.IH
    by (simp add: row count_row dropna_records_Nil)
qed

lemma pool_entry_of_key:
  assumes run: "author_email_df C final_df = Inr pool"
    and row: "(email_map, aff_map) \<in> set final_df" "email_map \<noteq> []" "aff_map \<noteq> []"
    and key: "(a, Some e') \<in> set email_map"
    and found: "map_of aff_map a = Some (Some f) \<or> map_of aff_map a = None \<and> f = []"
  shows "\<lparr>author = Some (clean_author a), email = Some e', aff = Some f,
         city = extract_city C f, country = extract_country C f\<rparr> \<in> set pool"
proof -
  let ?kept = "dropna_records (records_of (filter_valid final_df))"
  let ?mk = "\<lambda>(a, e, f).
        \<lparr>author = Some (clean_author a), email = Some e, aff = Some f,
         city = extract_city C f, country = extract_country C f\<rparr>"
  have pool: "pool = map ?mk ?kept" by (rule pool_rows [OF run])
  from found have "Some f = (case map_of aff_map a of Some w \<Rightarrow> w | None \<Rightarrow> Some [])"
    by auto
  with row key have "(a, Some e', Some f) \<in> set (records_of (filter_valid final_df))"
    unfolding in_records_of by blast
  then have "(a, e', f) \<in> set ?kept" by (simp add: in_dropna_records)
  then have "?mk (a, e', f) \<in> ?mk ` set ?kept" by (rule imageI)
  then show ?thesis by (simp add: pool)
qed

lemma pool_entry_origin:
  assumes run: "author_email_df C final_df = Inr pool"
    and c: "c \<in> set pool"
  shows "\<exists>email_map aff_map a e' f.
           (email_map, aff_map) \<in> set final_df \<and> (a, Some e') \<in> set email_map
           \<and> email_map \<noteq> [] \<and> aff_map \<noteq> []
           \<and> (map_of aff_map a = Some (Some f) \<or> map_of aff_map a = None \<and> f = [])
           \<and> c = \<lparr>author = Some (clean_author a), email = Some e', aff = Some f,
                   city = extract_city C f, country = extract_country C f\<rparr>"
proof -
  let ?kept = "dropna_records (records_of (filter_valid final_df))"
  let ?mk = "\<lambda>(a, e, f).
        \<lparr>author = Some (clean_author a), email = Some e, aff = Some f,
         city = extract_city C f, country = extract_country C f\<rparr>"
  have pool: "pool = map ?mk ?kept" by (rule pool_rows [OF run])
  from c have "c \<in> ?mk ` set ?kept" by (simp add: pool)
  then obtain k where k: "k \<in> set ?kept" and ck: "c = ?mk k" by (rule imageE)
  obtain a e' f where kdef: "k = (a, e', f)" by (cases k)
  from k kdef have "(a, Some e', Some f) \<in> set (records_of (filter_valid final_df))"
    by (simp add: in_dropna_records)
  then obtain email_map aff_map where row: "(email_map, aff_map) \<in> set final_df"
      "email_map \<noteq> []" "aff_map \<noteq> []" "(a, Some e') \<in> set email_map"
      "Some f = (case map_of aff_map a of Some w \<Rightarrow> w | None \<Rightarrow> Some [])"
    unfolding in_records_of by blast
  from row(5) have found: "map_of aff_map a = Some (Some f) \<or> map_of aff_map a = None \<and> f = []"
    by (cases "map_of aff_map a") auto
  from ck kdef have "c = \<lparr>author = Some (clean_author a), email = Some e', aff = Some f,
                   city = extract_city C f, country = extract_country C f\<rparr>"
    by simp
  with row(1-4) found show ?thesis by blast
qed

lemma pool_count_of_name:
  assumes run: "author_email_df C final_df = Inr pool"
  shows "length (filter (\<lambda>c. author c = Some n) pool)
       = sum_list (map (\<lambda>(email_map, aff_map).
           if email_map \<noteq> [] \<and> aff_map \<noteq> []
           then length (filter (\<lambda>(a, e). clean_author a = n \<and> e \<noteq> None
                                   \<and> map_of aff_map a \<noteq> Some None) email_map)
           else 0) final_df)"
proof -
  let ?kept = "dropna_records (records_of (filter_valid final_df))"
  let ?mk = "\<lambda>(a, e, f).
        \<lparr>author = Some (clean_author a), email = Some e, aff = Some f,
         city = extract_city C f, country = extract_country C f\<rparr>"
  have pool: "pool = map ?mk ?kept" by (rule pool_rows [OF run])
  have "filter (\<lambda>c. author c = Some n) pool
     = map ?mk (filter (\<lambda>(a, e, f). clean_author a = n) ?kept)"
    unfolding pool by (simp add: filter_map comp_def case_prod_unfold)
  then have "length (filter (\<lambda>c. author c = Some n) pool)
     = length (filter (\<lambda>(a, e, f). clean_author a = n) ?kept)"
    by simp
  then show ?thesis by (simp only: count_kept)
qed

text \<open>
  C2, as the code computes it, stated on the input. Take any source record whose two
  maps are both non-empty, and any author key of its email map whose email is present
  and whose affiliation is present (or absent from the affiliation map, which counts as
  the empty text): the pool holds an entry under the cleaned name with that very email
  and affiliation. Every entry of the pool is of this kind. And entries are never
  merged: the number of entries under a cleaned name is the number of such keys, over
  all the records, that clean to it.
\<close>

theorem pool_keeps_every_record:
  assumes run: "author_email_df C final_df = Inr pool"
  shows "(\<forall>(email_map, aff_map)\<in>set final_df. email_map \<noteq> [] \<and> aff_map \<noteq> [] \<longrightarrow>
           (\<forall>(a, e)\<in>set email_map. \<forall>e' f.
              e = Some e'
              \<and> (map_of aff_map a = Some (Some f) \<or> map_of aff_map a = None \<and> f = [])
              \<longrightarrow> \<lparr>author = Some (clean_author a), email = Some e', aff = Some f,
                     city = extract_city C f, country = extract_country C f\<rparr> \<in> set pool))
     \<and> (\<forall>c\<in>set pool. \<exists>(email_map, aff_map)\<in>set final_df. \<exists>(a, e)\<in>set email_map. \<exists>e' f.
           email_map \<noteq> [] \<and> aff_map \<noteq> [] \<and> e = Some e'
           \<and> (map_of aff_map a = Some (Some f) \<or> map_of aff_map a = None \<and> f = [])
           \<and> c = \<lparr>author = Some (clean_author a), email = Some e', aff = Some f,
                   city = extract_city C f, country = extract_country C f\<rparr>)
     \<and> length (filter (\<lambda>c. author c = Some n) pool)
       = sum_list (map (\<lambda>(email_map, aff_map).
           if email_map \<noteq> [] \<and> aff_map \<noteq> []
           then length (filter (\<lambda>(a, e). clean_author a = n \<and> e \<noteq> None
                                   \<and> map_of aff_map a \<noteq> Some None) email_map)
           else 0) final_df)"
proof (intro conjI)
  show "\<forall>(email_map, aff_map)\<in>set final_df. email_map \<noteq> [] \<and> aff_map \<noteq> [] \<longrightarrow>
           (\<forall>(a, e)\<in>set email_map. \<forall>e' f.
              e = Some e'
              \<and> (map_of aff_map a = Some (Some f) \<or> map_of aff_map a = None \<and> f = [])
              \<longrightarrow> \<lparr>author = Some (clean_author a), email = Some e', aff = Some f,
                     city = extract_city C f, country = extract_country C f\<rparr> \<in> set pool)"
  proof (intro ballI, clarify)
    fix email_map aff_map a e' f
    assume "(email_map, aff_map) \<in> set final_df" "email_map \<noteq> []" "aff_map \<noteq> []"
      "(a, Some e') \<in> set email_map"
      "map_of aff_map a = Some (Some f) \<or> map_of aff_map a = None \<and> f = []"
    then show "\<lparr>author = Some (clean_author a), email = Some e', aff = Some f,
         city = extract_city C f, country = extract_country C f\<rparr> \<in> set pool"
      by (rule pool_entry_of_key [OF run])
  qed
next
  show "\<forall>c\<in>set pool. \<exists>(email_map, aff_map)\<in>set final_df. \<exists>(a, e)\<in>set email_map. \<exists>e' f.
           email_map \<noteq> [] \<and> aff_map \<noteq> [] \<and> e = Some e'
           \<and> (map_of aff_map a = Some (Some f) \<or> map_of aff_map a = None \<and> f = [])
           \<and> c = \<lparr>author = Some (clean_author a), email = Some e', aff = Some f,
                   city = extract_city C f, country = extract_country C f\<rparr>"
  proof
    fix c
    assume "c \<in> set pool"
    from pool_entry_origin [OF run this]
    obtain email_map aff_map a e' f where
      row: "(email_map, aff_map) \<in> set final_df" and key: "(a, Some e') \<in> set email_map"
      and rest: "email_map \<noteq> [] \<and> aff_map \<noteq> [] \<and> Some e' = Some e'
           \<and> (map_of aff_map a = Some (Some f) \<or> map_of aff_map a = None \<and> f = [])
           \<and> c = \<lparr>author = Some (clean_author a), email = Some e', aff = Some f,
                   city = extract_city C f, country = extract_country C f\<rparr>"
      by blast
    from rest have "\<exists>e'' f. email_map \<noteq> [] \<and> aff_map \<noteq> [] \<and> Some e' = Some e''
           \<and> (map_of aff_map a = Some (Some f) \<or> map_of aff_map a = None \<and> f = [])
           \<and> c = \<lparr>author = Some (clean_author a), email = Some e'', aff = Some f,
                   city = extract_city C f, country = extract_country C f\<rparr>"
      by blast
    with key have "\<exists>(a, e)\<in>set email_map. \<exists>e'' f. email_map \<noteq> [] \<and> aff_map \<noteq> []
           \<and> e = Some e''
           \<and> (map_of aff_map a = Some (Some f) \<or> map_of aff_map a = None \<and> f = [])
           \<and> c = \<lparr>author = Some (clean_author a), email = Some e'', aff = Some f,
                   city = extract_city C f, country = extract_country C f\<rparr>"
      by (intro bexI [of _ "(a, Some e')"]) simp_all
    with row show "\<exists>(email_map, aff_map)\<in>set final_df. \<exists>(a, e)\<in>set email_map. \<exists>e' f.
           email_map \<noteq> [] \<and> aff_map \<noteq> [] \<and> e = Some e'
           \<and> (map_of aff_map a = Some (Some f) \<or> map_of aff_map a = None \<and> f = [])
           \<and> c = \<lparr>author = Some (clean_author a), email = Some e', aff = Some f,
                   city = extract_city C f, country = extract_country C f\<rparr>"
      by (intro bexI [of _ "(email_map, aff_map)"]) simp_all
  qed
next
  show "length (filter (\<lambda>c. author c = Some n) pool)
       = sum_list (map (\<lambda>(email_map, aff_map).
           if email_map \<noteq> [] \<and> aff_map \<noteq> []
           then length (filter (\<lambda>(a, e). clean_author a = n \<and> e \<noteq> None
                                   \<and> map_of aff_map a \<noteq> Some None) email_map)
           else 0) final_df)"
    by (rule pool_count_of_name [OF run])
qed

theorem pool_keeps_every_record_witness:
  "\<lparr>author = Some ''Ravi Rao'', email = Some ''r@b.org'', aff = Some ''Univ B'',
     city = Nothing, country = Nothing\<rparr>
     \<in> set [\<lparr>author = Some ''Jane Doe'', email = Some ''a@x.org'', aff = Some ''Univ A'',
              city = Nothing, country = Nothing\<rparr>,
             \<lparr>author = Some ''Ravi Rao'', email = Some ''r@b.org'', aff = Some ''Univ B'',
              city = Nothing, country = Nothing\<rparr>,
             \<lparr>author = Some ''Jane Doe'', email = Some ''b@y.org'', aff = Some ''Univ C'',
              city = Nothing, country = Nothing\<rparr>]
   \<and> length (filter (\<lambda>c. author c = Some ''Jane Doe'')
            [\<lparr>author = Some ''Jane Doe'', email = Some ''a@x.org'', aff = Some ''Univ A'',
              city = Nothing, country = Nothing\<rparr>,
             \<lparr>author = Some ''Ravi Rao'', email = Some ''r@b.org'', aff = Some ''Univ B'',
              city = Nothing, country = Nothing\<rparr>,
             \<lparr>author = Some ''Jane Doe'', email = Some ''b@y.org'', aff = Some ''Univ C'',
              city = Nothing, country = Nothing\<rparr>]) = 2"
proof -
  let ?first = "([(''Jane Doe, MD'', Some ''a@x.org''), (''Ravi Rao'', Some ''r@b.org'')],
                 [(''Jane Doe, MD'', Some ''Univ A''), (''Ravi Rao'', Some ''Univ B'')])"
  let ?second = "([(''Jane Doe'', Some ''b@y.org'')], [(''Jane Doe'', Some ''Univ C'')])"
  let ?pool = "[\<lparr>author = Some ''Jane Doe'', email = Some ''a@x.org'', aff = Some ''Univ A'',
              city = Nothing, country = Nothing\<rparr>,
             \<lparr>author = Some ''Ravi Rao'', email = Some ''r@b.org'', aff = Some ''Univ B'',
              city = Nothing, country = Nothing\<rparr>,
             \<lparr>author = Some ''Jane Doe'', email = Some ''b@y.org'', aff = Some ''Univ C'',
              city = Nothing, country = Nothing\<rparr>]"
  note kept = pool_keeps_every_record [OF author_email_df_two_keys, of "''Jane Doe''"]
  have row: "?first \<in> set [?first, ?second]"
    by simp
  have key: "(''Ravi Rao'', Some ''r@b.org'') \<in> set (fst ?first)"
    by simp
  have found: "map_of (snd ?first) ''Ravi Rao'' = Some (Some ''Univ B'')"
    by simp
  from kept [THEN conjunct1, THEN bspec, OF row]
  have "\<forall>(a, e)\<in>set (fst ?first). \<forall>e' f.
          e = Some e'
          \<and> (map_of (snd ?first) a = Some (Some f) \<or> map_of (snd ?first) a = None \<and> f = [])
          \<longrightarrow> \<lparr>author = Some (clean_author a), email = Some e', aff = Some f,
                 city = extract_city collaborators_0 f,
                 country = extract_country collaborators_0 f\<rparr> \<in> set ?pool"
    by simp
  from this [THEN bspec, OF key] found
  have "\<lparr>author = Some (clean_author ''Ravi Rao''), email = Some ''r@b.org'',
          aff = Some ''Univ B'', city = extract_city collaborators_0 ''Univ B'',
          country = extract_country collaborators_0 ''Univ B''\<rparr> \<in> set ?pool"
    by simp
  then have entry: "\<lparr>author = Some ''Ravi Rao'', email = Some ''r@b.org'',
      aff = Some ''Univ B'', city = Nothing, country = Nothing\<rparr> \<in> set ?pool"
    by (simp add: clean_author_other collaborators_0_def)
  have total: "sum_list (map (\<lambda>(email_map, aff_map).
         if email_map \<noteq> [] \<and> aff_map \<noteq> []
         then length (filter (\<lambda>(a, e). clean_author a = ''Jane Doe'' \<and> e \<noteq> None
                                 \<and> map_of aff_map a \<noteq> Some None) email_map)
         else 0) [?first, ?second]) = 2"
    by (simp add: clean_author_degree clean_author_plain clean_author_other)
  from kept [THEN conjunct2, THEN conjunct2] total
  have count: "length (filter (\<lambda>c. author c = Some ''Jane Doe'') ?pool) = 2"
    by (rule trans)
  from entry count show ?thesis by (rule conjI)
qed

text \<open>
  C2 as the specification words it fails: two source records whose author keys clean to
  the same name, with different emails and affiliations, leave two entries for that name
  in the pool, the second one carrying the second record's email and affiliation.
\<close>

theorem pool_has_two_entries_for_one_name:
  "(\<exists>pool. author_email_df collaborators_0
       [([(''Jane Doe, MD'', Some ''a@x.org'')], [(''Jane Doe, MD'', Some ''Univ A'')]),
        ([(''Jane Doe'', Some ''b@y.org'')], [(''Jane Doe'', Some ''Univ B'')])] = Inr pool
     \<and> length (filter (\<lambda>c. author c = Some ''Jane Doe'') pool) = 2
     \<and> map email pool = [Some ''a@x.org'', Some ''b@y.org'']
     \<and> map aff pool = [Some ''Univ A'', Some ''Univ B''])"
  by (simp add: author_email_df_two_records)

section \<open>Properties of the manual author addition\<close>

text \<open>
  C10: when the job folder exists and the lookup returns no email or no affiliation
  (a missing value or an empty text), \<^verbatim>\<open>manual_authors\<close> answers with the not-found error,
  status 404, and the job store is the one it was given: the candidate table is not
  written.
\<close>

theorem manual_authors_lookup_miss:
  assumes "store job_id = Some dir"
    and "search_pubmed_author C author_name = Found author_email author_affiliation"
    and "falsy author_email \<or> falsy author_affiliation"
  shows "manual_authors C store job_id author_name =
     (JSONResponse (Error (''Author '' @ quoted author_name
        @ '' not found or missing email/affiliation.'')) 404, store)"
  using assms by (auto simp add: manual_authors_def Let_def)

theorem manual_authors_lookup_miss_witness:
  "manual_authors collaborators_0 store_0 ''job_1'' ''Ravi Rao'' =
     (JSONResponse (Error (''Author '' @ quoted ''Ravi Rao''
        @ '' not found or missing email/affiliation.'')) 404, store_0)"
  using manual_authors_lookup_miss
    [of store_0 "''job_1''" job_dir_0 collaborators_0 "''Ravi Rao''" None None]
  by (simp add: store_0_def collaborators_0_def falsy_def)

text \<open>The successful path does write the table: the failure above is not the only outcome.\<close>

lemma manual_authors_adds:
  "snd (manual_authors
         (collaborators_0\<lparr>search_pubmed_author :=
            (\<lambda>n. Found (Some ''r@b.org '') (Some '' Univ B''))\<rparr>)
         store_0 ''job_1'' ''Ravi Rao'') ''job_1''
   = Some (job_dir_0\<lparr>author_email_df_before_val := Some
       [\<lparr>author = Some ''Jane Doe'', email = Some ''jane@a.org'',
         aff = Some ''Univ A, Oslo, Norway'', city = None, country = None\<rparr>,
        \<lparr>author = Some ''Ravi Rao'', email = Some ''r@b.org'',
         aff = Some ''Univ B'', city = None, country = None\<rparr>]\<rparr>)"
  by (simp add: manual_authors_def store_0_def job_dir_0_def collaborators_0_def falsy_def
      text_of_def strip_def is_space_def dropna_def candidate_a_def reparse_row_def
      to_csv_def csv_cell_def na_values_def Let_def)

section \<open>Properties of the validation stage\<close>

lemma all_text: "list_all (\<lambda>x. x \<noteq> None) xs \<Longrightarrow> xs = map Some (map the xs)"
  by (induction xs) auto

lemma run_validation_writes:
  assumes "list_all (\<lambda>c. author c \<noteq> None) df"
  shows "\<exists>d ranked. snd (run_validation C store job_id dir df k) job_id = Some d
     \<and> author_email_df_after_val d = Some ranked \<and> Final_authors d = Some ranked"
proof -
  from assms have "list_all (\<lambda>x. x \<noteq> None) (map author df)"
    by (simp add: list_all_iff)
  then have "map author df = map Some (map the (map author df))"
    by (rule all_text)
  then obtain names where names: "map author df = map Some names" by blast
  have "\<exists>flags. coauthor_results (check_coauthorship_selenium C) (map author df) = Inr flags"
    unfolding names coauthor_results_def by (simp add: coauthor_rows_text)
  then obtain flags where
    flags: "coauthor_results (check_coauthorship_selenium C) (map author df) = Inr flags"
    by blast
  show ?thesis
    by (simp add: run_validation_def flags Let_def)
qed

lemma validate_authors_store_0:
  "fst (validate_authors collaborators_0 store_0 ''job_1'') = Unhandled KeyError
   \<and> snd (validate_authors collaborators_0 store_0 ''job_1'') ''job_1''
     = Some (job_dir_0\<lparr>
         author_email_df_after_val := Some
           [\<lparr>who = candidate_a,
             vm = metrics_0\<lparr>country_match := ''NO''\<rparr>,
             score = score_of (metrics_0\<lparr>country_match := ''NO''\<rparr>)\<rparr>],
         Final_authors := Some
           [\<lparr>who = candidate_a,
             vm = metrics_0\<lparr>country_match := ''NO''\<rparr>,
             score = score_of (metrics_0\<lparr>country_match := ''NO''\<rparr>)\<rparr>]\<rparr>)"
  by (simp add: validate_authors_def store_0_def job_dir_0_def load_keyword_string_def
      run_validation_def coauthor_results_def candidate_a_def collaborators_0_def
      enrich_row_def add_condition_columns_def score_row_def metrics_0_def Let_def
      validated_columns_def display_columns_def dict_fromkeys_def)

text \<open>
  C5, as the code computes it: the validation stage refuses, with status 404 and an
  unchanged job store, when the job folder is absent or the candidate table is absent.
  When the candidate table exists and no keyword-string file does, it does not refuse:
  it runs as with the empty keyword string, and on a table whose author cells are all
  text it writes the two validated tables into the job folder.
\<close>

theorem validate_authors_prerequisites:
  "(store job_id = None \<longrightarrow>
      validate_authors C store job_id =
        (JSONResponse (Error (''Invalid job_id '' @ quoted job_id
           @ ''. Please run /database_search first.'')) 404, store))
   \<and> (store job_id = Some dir \<and> author_email_df_before_val dir = None \<longrightarrow>
      validate_authors C store job_id =
        (JSONResponse (Error
           ''No author_email_df_before_val.csv found. Please run /database_search first.'')
           404, store))
   \<and> (store job_id = Some dir \<and> author_email_df_before_val dir = Some df
        \<and> keywordstring_files dir = [] \<longrightarrow>
      validate_authors C store job_id = run_validation C store job_id dir df []
      \<and> (list_all (\<lambda>c. author c \<noteq> None) df \<longrightarrow>
          (\<exists>d ranked. snd (validate_authors C store job_id) job_id = Some d
             \<and> author_email_df_after_val d = Some ranked \<and> Final_authors d = Some ranked)))"
proof -
  have absent_job: "store job_id = None \<longrightarrow>
      validate_authors C store job_id =
        (JSONResponse (Error (''Invalid job_id '' @ quoted job_id
           @ ''. Please run /database_search first.'')) 404, store)"
    by (simp add: validate_authors_def)
  have absent_table: "store job_id = Some dir \<and> author_email_df_before_val dir = None \<longrightarrow>
      validate_authors C store job_id =
        (JSONResponse (Error
           ''No author_email_df_before_val.csv found. Please run /database_search first.'')
           404, store)"
    by (simp add: validate_authors_def)
  have runs: "validate_authors C store job_id = run_validation C store job_id dir df []"
    if "store job_id = Some dir" "author_email_df_before_val dir = Some df"
       "keywordstring_files dir = []"
    using that by (simp add: validate_authors_def load_keyword_string_def)
  have writes: "\<exists>d ranked. snd (validate_authors C store job_id) job_id = Some d
             \<and> author_email_df_after_val d = Some ranked \<and> Final_authors d = Some ranked"
    if "store job_id = Some dir" "author_email_df_before_val dir = Some df"
       "keywordstring_files dir = []" "list_all (\<lambda>c. author c \<noteq> None) df"
    using runs [OF that(1,2,3)] run_validation_writes [OF that(4)] by simp
  from absent_job absent_table runs writes show ?thesis by blast
qed

theorem validate_authors_prerequisites_witness:
  "validate_authors collaborators_0 (store_0(''job_1'' := None)) ''job_1'' =
     (JSONResponse (Error (''Invalid job_id '' @ quoted ''job_1''
        @ ''. Please run /database_search first.'')) 404, store_0(''job_1'' := None))
   \<and> validate_authors collaborators_0
        (store_0(''job_1'' \<mapsto> job_dir_0\<lparr>author_email_df_before_val := None\<rparr>)) ''job_1'' =
     (JSONResponse (Error
        ''No author_email_df_before_val.csv found. Please run /database_search first.'') 404,
      store_0(''job_1'' \<mapsto> job_dir_0\<lparr>author_email_df_before_val := None\<rparr>))
   \<and> validate_authors collaborators_0 store_0 ''job_1''
     = run_validation collaborators_0 store_0 ''job_1'' job_dir_0 [candidate_a] []
   \<and> (\<exists>d ranked. snd (validate_authors collaborators_0 store_0 ''job_1'') ''job_1'' = Some d
        \<and> author_email_df_after_val d = Some ranked \<and> Final_authors d = Some ranked)"
proof -
  let ?no_job = "store_0(''job_1'' := None)"
  let ?no_table = "store_0(''job_1'' \<mapsto> job_dir_0\<lparr>author_email_df_before_val := None\<rparr>)"
  have no_job: "?no_job ''job_1'' = None"
    by simp
  have no_table: "?no_table ''job_1'' = Some (job_dir_0\<lparr>author_email_df_before_val := None\<rparr>)
      \<and> author_email_df_before_val (job_dir_0\<lparr>author_email_df_before_val := None\<rparr>) = None"
    by simp
  have no_keywords: "store_0 ''job_1'' = Some job_dir_0
      \<and> author_email_df_before_val job_dir_0 = Some [candidate_a]
      \<and> keywordstring_files job_dir_0 = []"
    by (simp add: store_0_def job_dir_0_def)
  have text_cells: "list_all (\<lambda>c. author c \<noteq> None) [candidate_a]"
    by (simp add: candidate_a_def)
  from no_job no_table no_keywords text_cells
    validate_authors_prerequisites
      [of ?no_job "''job_1''" collaborators_0 job_dir_0 "[]"]
    validate_authors_prerequisites
      [of ?no_table "''job_1''" collaborators_0
          "job_dir_0\<lparr>author_email_df_before_val := None\<rparr>" "[]"]
    validate_authors_prerequisites
      [of store_0 "''job_1''" collaborators_0 job_dir_0 "[candidate_a]"]
  show ?thesis by blast
qed

text \<open>
  C5 as the specification words it fails: in a job folder that holds the candidate table
  and no keyword-string file the stage does not refuse. It runs, writes the validated
  tables into the folder, and its answer is not a report of a missing prerequisite.
\<close>

theorem validate_authors_runs_without_keywords:
  "keywordstring_files job_dir_0 = []
   \<and> store_0 ''job_1'' = Some job_dir_0
   \<and> author_email_df_after_val job_dir_0 = None
   \<and> fst (validate_authors collaborators_0 store_0 ''job_1'') = Unhandled KeyError
   \<and> (\<exists>d ranked. snd (validate_authors collaborators_0 store_0 ''job_1'') ''job_1'' = Some d
        \<and> author_email_df_after_val d = Some ranked \<and> length ranked = 1)"
  using validate_authors_store_0 by (simp add: job_dir_0_def store_0_def)

end
